theory Spec2Isabelle
  imports Main
begin

section \<open>Python strings\<close>

text \<open>
  A Python \<open>str\<close> is a sequence of Unicode code points; it is modelled as the list of
  the \<open>ord\<close> values of its characters. \<open>ascii\<close> embeds an ASCII literal, and the two
  non-ASCII characters of the source's literals are named. A \<open>bytes\<close> value is the list
  of its bytes.
\<close>

type_synonym pystr = "nat list"

type_synonym pybytes = "nat list"

definition ascii :: "string \<Rightarrow> pystr" where
  "ascii cs = map of_char cs"

abbreviation EN_DASH :: nat where
  "EN_DASH \<equiv> 0x2013"

abbreviation BAR_CHART :: nat where
  "BAR_CHART \<equiv> 0x1F4CA"

abbreviation NEWLINE :: nat where
  "NEWLINE \<equiv> 0x0A"

text \<open>The exceptions that the modelled code can raise.\<close>

datatype exn =
  HTTPException (status_code: nat) (detail: pystr) | UnicodeEncodeError | ValueError

text \<open>\<open>sep.join(xs)\<close>.\<close>

fun join :: "pystr \<Rightarrow> pystr list \<Rightarrow> pystr" where
  "join sep [] = []"
| "join sep [x] = x"
| "join sep (x # y # ys) = x @ sep @ join sep (y # ys)"

text \<open>
  \<open>str(n)\<close> for an \<open>int\<close>: the decimal digits, after a minus sign when negative.
  CPython refuses the conversion with \<open>ValueError\<close> when the number has more digits
  than \<open>sys.get_int_max_str_digits()\<close>, which is 4300 unless the process changes it
  (this program does not); the sign is not counted. Formatting an \<open>int\<close> in an
  f-string with no format specification is the same conversion.
\<close>

function str_nat :: "nat \<Rightarrow> pystr" where
  "str_nat n = (if n < 10 then [48 + n] else str_nat (n div 10) @ [48 + n mod 10])"
  by pat_completeness auto
termination
  by (relation "measure id") auto

declare str_nat.simps [simp del]

definition decimal :: "int \<Rightarrow> pystr" where
  "decimal i = (if i < 0 then 45 # str_nat (nat (- i)) else str_nat (nat i))"

definition int_max_str_digits :: nat where
  "int_max_str_digits = 4300"

definition within_str_limit :: "int \<Rightarrow> bool" where
  "within_str_limit i \<longleftrightarrow> length (str_nat (nat \<bar>i\<bar>)) \<le> int_max_str_digits"

definition str_int :: "int \<Rightarrow> exn + pystr" where
  "str_int i = (if within_str_limit i then Inr (decimal i) else Inl ValueError)"

section \<open>\<open>urllib.parse.quote\<close>\<close>

text \<open>
  \<open>quote(string)\<close> with its defaults (\<open>safe='/'\<close>, \<open>encoding='utf-8'\<close>,
  \<open>errors='strict'\<close>): the string is encoded in UTF-8, which raises
  \<open>UnicodeEncodeError\<close> on a surrogate code point (U+D800 to U+DFFF); then every byte
  that is not a letter, a digit or one of \<open>_.-~/\<close> is replaced by \<open>%XX\<close> with two
  upper-case hexadecimal digits. No \<open>str\<close> holds a value from 0x110000 on; the model
  gives the encoder's error there as well.
\<close>

definition utf8_encode_char :: "nat \<Rightarrow> exn + pybytes" where
  "utf8_encode_char c =
    (if c < 0x80 then Inr [c]
     else if c < 0x800 then Inr [0xC0 + c div 0x40, 0x80 + c mod 0x40]
     else if 0xD800 \<le> c \<and> c < 0xE000 then Inl UnicodeEncodeError
     else if c < 0x10000 then
       Inr [0xE0 + c div 0x1000, 0x80 + c div 0x40 mod 0x40, 0x80 + c mod 0x40]
     else if c < 0x110000 then
       Inr [0xF0 + c div 0x40000, 0x80 + c div 0x1000 mod 0x40,
            0x80 + c div 0x40 mod 0x40, 0x80 + c mod 0x40]
     else Inl UnicodeEncodeError)"

fun utf8_encode :: "pystr \<Rightarrow> exn + pybytes" where
  "utf8_encode [] = Inr []"
| "utf8_encode (c # cs) =
    (case utf8_encode_char c of
       Inl e \<Rightarrow> Inl e
     | Inr bs \<Rightarrow> (case utf8_encode cs of Inl e \<Rightarrow> Inl e | Inr rest \<Rightarrow> Inr (bs @ rest)))"

definition always_safe :: "nat \<Rightarrow> bool" where
  "always_safe b \<longleftrightarrow>
     (65 \<le> b \<and> b \<le> 90) \<or> (97 \<le> b \<and> b \<le> 122) \<or> (48 \<le> b \<and> b \<le> 57)
     \<or> b = 95 \<or> b = 46 \<or> b = 45 \<or> b = 126"

definition hex_digit :: "nat \<Rightarrow> nat" where
  "hex_digit d = (if d < 10 then 48 + d else 55 + d)"

definition quoter :: "nat \<Rightarrow> pystr" where
  "quoter b = (if always_safe b \<or> b = 47 then [b]
               else [37, hex_digit (b div 16), hex_digit (b mod 16)])"

definition quote :: "pystr \<Rightarrow> exn + pystr" where
  "quote string =
    (case utf8_encode string of
       Inl e \<Rightarrow> Inl e
     | Inr bs \<Rightarrow> Inr (concat (map quoter bs)))"

section \<open>The recommendation engine\<close>

definition determine_recommendation ::
  "pystr \<Rightarrow> pystr \<Rightarrow> pystr \<Rightarrow> pystr list \<Rightarrow> pystr list \<Rightarrow> pystr \<times> int" where
  "determine_recommendation org_type team_size client_volume specializations services =
    (if org_type = ascii ''Insurance Provider / EAS'' then
       (ascii ''Enterprise Access (Insurance & EAS)'', 20)
     else if org_type = ascii ''Mental Health Practitioner '' @ EN_DASH # ascii '' Private Practice'' then
       (if team_size \<in> set [ascii ''1 (Solo practice)'', ascii ''2'' @ EN_DASH # ascii ''5 providers''] then
          (ascii ''Fresh Start'', 4)
        else if team_size = ascii ''6'' @ EN_DASH # ascii ''15 providers'' then
          (ascii ''Practice Plus'', 8)
        else
          (ascii ''Community Access'', 16))
     else if org_type = ascii ''Mental Health or Healthcare Provider '' @ EN_DASH # ascii '' Public System'' then
       (if team_size \<in> set [ascii ''16'' @ EN_DASH # ascii ''50 providers'', ascii ''51+ providers''] then
          (ascii ''Enterprise Care (Public Health)'', 20)
        else
          (ascii ''Practice Plus'', 6))
     else if org_type = ascii ''Home Care or Specialized Residential Services'' then
       (ascii ''Community Access'', 20)
     else if ascii ''Trauma-informed care'' \<in> set specializations then
       (ascii ''Practice Plus'', 8)
     else if ascii ''Group therapy or workshops'' \<in> set services
             \<and> team_size \<in> set [ascii ''16'' @ EN_DASH # ascii ''50 providers'', ascii ''51+ providers''] then
       (ascii ''Community Access'', 20)
     else
       (ascii ''Community Access'', 10))"

text \<open>The dictionary \<open>pricing\<close> of \<open>calculate_price\<close>, and \<open>pricing.get(package, 49)\<close>.\<close>

definition pricing :: "pystr \<rightharpoonup> int" where
  "pricing =
    [ascii ''Fresh Start'' \<mapsto> 49,
     ascii ''Practice Plus'' \<mapsto> 89,
     ascii ''Community Access'' \<mapsto> 49,
     ascii ''Enterprise Care (Public Health)'' \<mapsto> 199,
     ascii ''Enterprise Access (Insurance & EAS)'' \<mapsto> 199]"

definition calculate_price :: "pystr \<Rightarrow> int \<Rightarrow> int" where
  "calculate_price package seats =
    seats * (case pricing package of Some rate \<Rightarrow> rate | None \<Rightarrow> 49)"

text \<open>
  The dictionary \<open>params\<close> is iterated in insertion order: \<open>tier\<close>, \<open>seats\<close>,
  \<open>utm_source\<close>. Each value goes through \<open>quote(str(v))\<close>, and the first \<open>str\<close> or
  \<open>quote\<close> that raises ends the call; \<open>str\<close> of a \<open>str\<close> is the string itself.
\<close>

definition base_url :: pystr where
  "base_url = ascii ''https://cogni-recommendation-chuiv5x8slzxktq3mzbb5p.streamlit.app''"

definition generate_streamlit_url :: "pystr \<Rightarrow> int \<Rightarrow> exn + pystr" where
  "generate_streamlit_url package seats =
    (case quote package of
       Inl e \<Rightarrow> Inl e
     | Inr q_tier \<Rightarrow>
        (case str_int seats of
           Inl e \<Rightarrow> Inl e
         | Inr s_seats \<Rightarrow>
            (case quote s_seats of
               Inl e \<Rightarrow> Inl e
             | Inr q_seats \<Rightarrow>
                (case quote (ascii ''chatbot'') of
                   Inl e \<Rightarrow> Inl e
                 | Inr q_source \<Rightarrow>
                    Inr (base_url @ ascii ''/?''
                         @ join (ascii ''&'')
                             [ascii ''tier'' @ ascii ''='' @ q_tier,
                              ascii ''seats'' @ ascii ''='' @ q_seats,
                              ascii ''utm_source'' @ ascii ''='' @ q_source])))))"

text \<open>The dictionary \<open>features\<close> of \<open>get_features\<close>, and \<open>features.get(package, [])\<close>.\<close>

definition features :: "pystr \<rightharpoonup> pystr list" where
  "features =
    [ascii ''Fresh Start'' \<mapsto>
       [ascii ''Basic self-guided tools'',
        ascii ''AI self-assessment'',
        ascii ''1 group session/month'',
        ascii ''1 report template''],
     ascii ''Practice Plus'' \<mapsto>
       [ascii ''Full AI suite'',
        ascii ''Group modules'',
        ascii ''2 sessions/month'',
        ascii ''Custom reports'',
        ascii ''Provider dashboard''],
     ascii ''Community Access'' \<mapsto>
       [ascii ''Multilingual AI tools'',
        ascii ''Scalable group support'',
        ascii ''Onboarding support'',
        ascii ''Usage dashboard'',
        ascii ''Volume discounts for 500+ users''],
     ascii ''Enterprise Care (Public Health)'' \<mapsto>
       [ascii ''Full AI triage'',
        ascii ''Post-session care'',
        ascii ''Real-time analytics'',
        ascii ''API access'',
        ascii ''Client monitoring & support'',
        ascii ''Unlimited video, audio, and text-based monitoring tools''],
     ascii ''Enterprise Access (Insurance & EAS)'' \<mapsto>
       [ascii ''API integration'',
        ascii ''Branded self-assessments'',
        ascii ''Usage analytics'',
        ascii ''Employer group modules'',
        ascii ''Outcome dashboards'',
        ascii ''Unlimited monitoring tools'']]"

definition get_features :: "pystr \<Rightarrow> pystr list" where
  "get_features package = (case features package of Some fs \<Rightarrow> fs | None \<Rightarrow> [])"

section \<open>The request, the response and the endpoint\<close>

record RecommendationRequest =
  org_type :: pystr
  team_size :: pystr
  team_roles :: "pystr list"
  client_volume :: pystr
  services :: "pystr list"
  specializations :: "pystr list"

record response =
  recommended_package :: pystr
  recommended_seats :: int
  estimated_pricing :: pystr
  key_features :: "pystr list"
  next_steps :: pystr
  sales_message :: pystr

text \<open>
  The f-string of \<open>generate_sales_message\<close>, line by line. Its replacement fields are
  evaluated from left to right: \<open>seats\<close> and \<open>price\<close> are formatted, and the last
  field calls \<open>generate_streamlit_url\<close>; the first exception leaves the function.
\<close>

definition generate_sales_message ::
  "pystr \<Rightarrow> int \<Rightarrow> int \<Rightarrow> RecommendationRequest \<Rightarrow> exn + pystr" where
  "generate_sales_message package seats price data =
    (case str_int seats of
       Inl e \<Rightarrow> Inl e
     | Inr s_seats \<Rightarrow>
    (case str_int price of
       Inl e \<Rightarrow> Inl e
     | Inr s_price \<Rightarrow>
    (case generate_streamlit_url package seats of
       Inl e \<Rightarrow> Inl e
     | Inr url \<Rightarrow>
        Inr (concat
          [[NEWLINE],
           ascii ''    **Recommended Package:** '', package, [NEWLINE],
           [NEWLINE],
           ascii ''    Thank you for your details! Based on your '', org_type data,
           ascii '' organization with '', team_size data,
           ascii '' team and '', client_volume data,
           ascii '' client volume, we recommend:'', [NEWLINE],
           [NEWLINE],
           ascii ''    **Package:** '', package, ascii ''  '', [NEWLINE],
           ascii ''    **Seats:** '', s_seats, ascii ''  '', [NEWLINE],
           ascii ''    **Price:** $'', s_price, ascii ''  '', [NEWLINE],
           [NEWLINE],
           ascii ''    **Key Features:**  '', [NEWLINE],
           ascii ''    '',
           join [NEWLINE] (map (\<lambda>f. ascii ''- '' @ f) (get_features package)), [NEWLINE],
           [NEWLINE],
           ascii ''    ['', [BAR_CHART], ascii '' Click here for your detailed report]('',
           url, ascii '')'', [NEWLINE],
           ascii ''    '']))))"

text \<open>
  The body of the \<open>try\<close> statement of \<open>get_recommendation\<close>: \<open>not s\<close> holds of a
  \<open>str\<close> exactly when it is empty. The request is the \<open>RecommendationRequest\<close> that
  the framework has already built, so every field is present.
\<close>

definition recommendation_body :: "RecommendationRequest \<Rightarrow> exn + response" where
  "recommendation_body data =
    (if org_type data = [] \<or> team_size data = [] \<or> client_volume data = [] then
       Inl (HTTPException 422 (ascii ''Missing required fields''))
     else
       (case determine_recommendation (org_type data) (team_size data) (client_volume data)
               (specializations data) (services data) of
          (package, seats) \<Rightarrow>
            (let price = calculate_price package seats in
             case generate_streamlit_url package seats of
               Inl e \<Rightarrow> Inl e
             | Inr streamlit_url \<Rightarrow>
                (case str_int price of
                   Inl e \<Rightarrow> Inl e
                 | Inr s_price \<Rightarrow>
                    (case generate_sales_message package seats price data of
                       Inl e \<Rightarrow> Inl e
                     | Inr message \<Rightarrow>
                        Inr \<lparr>recommended_package = package,
                             recommended_seats = seats,
                             estimated_pricing = ascii ''$'' @ s_price,
                             key_features = get_features package,
                             next_steps = streamlit_url,
                             sales_message = message\<rparr>)))))"

text \<open>
  \<open>except Exception as e\<close> catches every exception of the body, the \<open>HTTPException\<close>
  of the validation included (it is a subclass of \<open>Exception\<close>), and raises an
  \<open>HTTPException\<close> with status 500 whose detail is \<open>str(e)\<close>. The text that \<open>str\<close>
  gives for an exception is the library's and is the parameter \<open>str_exn\<close>. The call of
  \<open>logging.error\<close> is left out.
\<close>

definition get_recommendation ::
  "(exn \<Rightarrow> pystr) \<Rightarrow> RecommendationRequest \<Rightarrow> exn + response" where
  "get_recommendation str_exn data =
    (case recommendation_body data of
       Inl e \<Rightarrow> Inl (HTTPException 500 (str_exn e))
     | Inr r \<Rightarrow> Inr r)"

section \<open>Reading a link back\<close>

text \<open>
  Percent-decoding, the inverse that the round-trip property of the link is stated with:
  \<open>%XX\<close> stands for the byte with that hexadecimal value, any other ASCII character
  for itself, and the bytes are read as UTF-8. A malformed escape, a character outside
  ASCII and an ill-formed byte sequence give \<open>None\<close>.
\<close>

definition hex_value :: "nat \<Rightarrow> nat option" where
  "hex_value c =
    (if 48 \<le> c \<and> c \<le> 57 then Some (c - 48)
     else if 65 \<le> c \<and> c \<le> 70 then Some (c - 55)
     else if 97 \<le> c \<and> c \<le> 102 then Some (c - 87)
     else None)"

fun unquote_to_bytes :: "pystr \<Rightarrow> pybytes option" where
  "unquote_to_bytes [] = Some []"
| "unquote_to_bytes (c # cs) =
    (if c = 37 then
       (case cs of
          h # l # rest \<Rightarrow>
            (case hex_value h of
               None \<Rightarrow> None
             | Some a \<Rightarrow>
                (case hex_value l of
                   None \<Rightarrow> None
                 | Some b \<Rightarrow> map_option ((#) (16 * a + b)) (unquote_to_bytes rest)))
        | _ \<Rightarrow> None)
     else if c < 128 then map_option ((#) c) (unquote_to_bytes cs)
     else None)"

definition continuation :: "nat \<Rightarrow> bool" where
  "continuation b \<longleftrightarrow> 0x80 \<le> b \<and> b < 0xC0"

fun utf8_decode :: "pybytes \<Rightarrow> pystr option" where
  "utf8_decode [] = Some []"
| "utf8_decode (b # bs) =
    (if b < 0x80 then map_option ((#) b) (utf8_decode bs)
     else if 0xC0 \<le> b \<and> b < 0xE0 then
       (case bs of
          b1 # rest \<Rightarrow>
            (let c = (b - 0xC0) * 0x40 + (b1 - 0x80) in
             if continuation b1 \<and> 0x80 \<le> c then map_option ((#) c) (utf8_decode rest)
             else None)
        | _ \<Rightarrow> None)
     else if 0xE0 \<le> b \<and> b < 0xF0 then
       (case bs of
          b1 # b2 # rest \<Rightarrow>
            (let c = (b - 0xE0) * 0x1000 + (b1 - 0x80) * 0x40 + (b2 - 0x80) in
             if continuation b1 \<and> continuation b2 \<and> 0x800 \<le> c
                \<and> \<not> (0xD800 \<le> c \<and> c < 0xE000)
             then map_option ((#) c) (utf8_decode rest)
             else None)
        | _ \<Rightarrow> None)
     else if 0xF0 \<le> b \<and> b < 0xF8 then
       (case bs of
          b1 # b2 # b3 # rest \<Rightarrow>
            (let c = (b - 0xF0) * 0x40000 + (b1 - 0x80) * 0x1000 + (b2 - 0x80) * 0x40
                     + (b3 - 0x80) in
             if continuation b1 \<and> continuation b2 \<and> continuation b3
                \<and> 0x10000 \<le> c \<and> c < 0x110000
             then map_option ((#) c) (utf8_decode rest)
             else None)
        | _ \<Rightarrow> None)
     else None)"

definition percent_decode :: "pystr \<Rightarrow> pystr option" where
  "percent_decode s =
    (case unquote_to_bytes s of None \<Rightarrow> None | Some bs \<Rightarrow> utf8_decode bs)"

text \<open>
  The fragment of a URL starts at its first \<open>#\<close>; the query string is what lies
  between the first \<open>?\<close> and the fragment. It is split at every \<open>&\<close> into
  parameters, and each parameter at its first \<open>=\<close> into a name and a value.
\<close>

fun split_on :: "nat \<Rightarrow> pystr \<Rightarrow> pystr list" where
  "split_on sep [] = [[]]"
| "split_on sep (c # cs) =
    (if c = sep then [] # split_on sep cs
     else (case split_on sep cs of
             w # ws \<Rightarrow> (c # w) # ws
           | [] \<Rightarrow> [[c]]))"

definition url_query :: "pystr \<Rightarrow> pystr" where
  "url_query url = drop 1 (dropWhile (\<lambda>c. c \<noteq> 63) (takeWhile (\<lambda>c. c \<noteq> 35) url))"

definition split_param :: "pystr \<Rightarrow> pystr \<times> pystr" where
  "split_param p = (takeWhile (\<lambda>c. c \<noteq> 61) p, drop 1 (dropWhile (\<lambda>c. c \<noteq> 61) p))"

definition query_param :: "pystr \<Rightarrow> pystr \<Rightarrow> pystr option" where
  "query_param url name =
    (case map_of (map split_param (split_on 38 (url_query url))) name of
       None \<Rightarrow> None
     | Some v \<Rightarrow> percent_decode v)"

text \<open>Reading a decimal integer: an optional minus sign, then one digit or more.\<close>

fun read_digits :: "nat \<Rightarrow> pystr \<Rightarrow> nat option" where
  "read_digits acc [] = Some acc"
| "read_digits acc (c # cs) =
    (if 48 \<le> c \<and> c \<le> 57 then read_digits (10 * acc + (c - 48)) cs else None)"

definition read_int :: "pystr \<Rightarrow> int option" where
  "read_int s =
    (case s of
       [] \<Rightarrow> None
     | c # cs \<Rightarrow>
        if c = 45 then (if cs = [] then None else map_option (\<lambda>n. - int n) (read_digits 0 cs))
        else map_option int (read_digits 0 s))"

text \<open>
  The tier and the seat count that a link carries: the percent-decoded values of its
  parameters \<open>tier\<close> and \<open>seats\<close>, the second read as an integer.
\<close>

definition link_tier :: "pystr \<Rightarrow> pystr option" where
  "link_tier url = query_param url (ascii ''tier'')"

definition link_seats :: "pystr \<Rightarrow> int option" where
  "link_seats url =
    (case query_param url (ascii ''seats'') of None \<Rightarrow> None | Some s \<Rightarrow> read_int s)"

text \<open>
  A string that has a UTF-8 encoding, so that \<open>quote\<close> accepts it: every code point is
  a Unicode scalar value, that is, below 0x110000 and no surrogate.
\<close>

definition encodable :: "pystr \<Rightarrow> bool" where
  "encodable s \<longleftrightarrow> list_all (\<lambda>c. c < 0x110000 \<and> \<not> (0xD800 \<le> c \<and> c < 0xE000)) s"

text \<open>
  The four organisation types that the rule chain tests for, and the five tier names that
  are the keys of \<open>pricing\<close> and of \<open>features\<close>.
\<close>

definition recognised_org_types :: "pystr list" where
  "recognised_org_types =
    [ascii ''Insurance Provider / EAS'',
     ascii ''Mental Health Practitioner '' @ EN_DASH # ascii '' Private Practice'',
     ascii ''Mental Health or Healthcare Provider '' @ EN_DASH # ascii '' Public System'',
     ascii ''Home Care or Specialized Residential Services'']"

definition tier_names :: "pystr list" where
  "tier_names =
    [ascii ''Fresh Start'',
     ascii ''Practice Plus'',
     ascii ''Community Access'',
     ascii ''Enterprise Care (Public Health)'',
     ascii ''Enterprise Access (Insurance & EAS)'']"


text \<open>
  The values of the ten \<open>return\<close> statements of \<open>determine_recommendation\<close>, in the
  order of the source.
\<close>

definition return_statements :: "(pystr \<times> int) list" where
  "return_statements =
    [(ascii ''Enterprise Access (Insurance & EAS)'', 20),
     (ascii ''Fresh Start'', 4),
     (ascii ''Practice Plus'', 8),
     (ascii ''Community Access'', 16),
     (ascii ''Enterprise Care (Public Health)'', 20),
     (ascii ''Practice Plus'', 6),
     (ascii ''Community Access'', 20),
     (ascii ''Practice Plus'', 8),
     (ascii ''Community Access'', 20),
     (ascii ''Community Access'', 10)]"

text \<open>
  The whitespace characters, those for which \<open>str.isspace\<close> holds: the ASCII ones
  (tab to carriage return, the four separators, the space) and the Unicode ones.
\<close>

definition whitespace :: "nat \<Rightarrow> bool" where
  "whitespace c \<longleftrightarrow>
     (9 \<le> c \<and> c \<le> 13) \<or> (28 \<le> c \<and> c \<le> 32) \<or> c = 133 \<or> c = 160 \<or> c = 5760
     \<or> (8192 \<le> c \<and> c \<le> 8202) \<or> c = 8232 \<or> c = 8233 \<or> c = 8239 \<or> c = 8287
     \<or> c = 12288"


section \<open>Facts about string literals\<close>

text \<open>
  Two literals are compared character by character. The lemmas are handed to the
  simplifier only where a comparison of literals has to be decided.
\<close>

lemma ascii_Nil: "ascii [] = []"
  by (simp add: ascii_def)

lemma ascii_Cons: "ascii (c # cs) = of_char c # ascii cs"
  by (simp add: ascii_def)

lemma of_char_ne_en_dash: "(of_char c :: nat) \<noteq> 8211"
  using nat_of_char_less_256 [of c] by arith

lemma en_dash_ne_of_char: "8211 \<noteq> (of_char c :: nat)"
  using nat_of_char_less_256 [of c] by arith

lemmas literal = ascii_Nil ascii_Cons of_char_ne_en_dash en_dash_ne_of_char

section \<open>The rule chain\<close>

text \<open>
  C7: two calls of \<open>determine_recommendation\<close> that agree on \<open>org_type\<close>,
  \<open>team_size\<close>, \<open>specializations\<close> and \<open>services\<close> return the same pair, whatever the
  two values of \<open>client_volume\<close> are.
\<close>

theorem determine_recommendation_ignores_client_volume:
  "determine_recommendation ot ts cv sp sv = determine_recommendation ot ts cv' sp sv"
  by (simp add: determine_recommendation_def)

text \<open>
  C1: for each of the four recognised organisation types \<open>determine_recommendation\<close>
  returns the pair of rules 1 to 4, for every \<open>client_volume\<close>, \<open>specializations\<close> and
  \<open>services\<close>: Enterprise Access with 20 seats for the insurance provider; for the private
  practice Fresh Start with 4 seats on the two smallest team sizes, Practice Plus with 8
  seats on 6 to 15 providers and Community Access with 16 seats otherwise; for the public
  system Enterprise Care with 20 seats on the two largest team sizes and Practice Plus
  with 6 seats otherwise; Community Access with 20 seats for home care.
\<close>

theorem determine_recommendation_recognised:
  "determine_recommendation (ascii ''Insurance Provider / EAS'') ts cv sp sv
     = (ascii ''Enterprise Access (Insurance & EAS)'', 20)
   \<and> (ts = ascii ''1 (Solo practice)'' \<or> ts = ascii ''2'' @ EN_DASH # ascii ''5 providers'' \<longrightarrow>
        determine_recommendation
          (ascii ''Mental Health Practitioner '' @ EN_DASH # ascii '' Private Practice'') ts cv sp sv
        = (ascii ''Fresh Start'', 4))
   \<and> (ts = ascii ''6'' @ EN_DASH # ascii ''15 providers'' \<longrightarrow>
        determine_recommendation
          (ascii ''Mental Health Practitioner '' @ EN_DASH # ascii '' Private Practice'') ts cv sp sv
        = (ascii ''Practice Plus'', 8))
   \<and> (ts \<noteq> ascii ''1 (Solo practice)'' \<and> ts \<noteq> ascii ''2'' @ EN_DASH # ascii ''5 providers''
        \<and> ts \<noteq> ascii ''6'' @ EN_DASH # ascii ''15 providers'' \<longrightarrow>
        determine_recommendation
          (ascii ''Mental Health Practitioner '' @ EN_DASH # ascii '' Private Practice'') ts cv sp sv
        = (ascii ''Community Access'', 16))
   \<and> (ts = ascii ''16'' @ EN_DASH # ascii ''50 providers'' \<or> ts = ascii ''51+ providers'' \<longrightarrow>
        determine_recommendation
          (ascii ''Mental Health or Healthcare Provider '' @ EN_DASH # ascii '' Public System'') ts cv sp sv
        = (ascii ''Enterprise Care (Public Health)'', 20))
   \<and> (ts \<noteq> ascii ''16'' @ EN_DASH # ascii ''50 providers'' \<and> ts \<noteq> ascii ''51+ providers'' \<longrightarrow>
        determine_recommendation
          (ascii ''Mental Health or Healthcare Provider '' @ EN_DASH # ascii '' Public System'') ts cv sp sv
        = (ascii ''Practice Plus'', 6))
   \<and> determine_recommendation (ascii ''Home Care or Specialized Residential Services'') ts cv sp sv
     = (ascii ''Community Access'', 20)"
  by (simp add: determine_recommendation_def literal)

theorem determine_recommendation_recognised_witness:
  "determine_recommendation
     (ascii ''Mental Health Practitioner '' @ EN_DASH # ascii '' Private Practice'')
     (ascii ''2'' @ EN_DASH # ascii ''5 providers'') (ascii ''Low'') [] []
   = (ascii ''Fresh Start'', 4)
   \<and> determine_recommendation
     (ascii ''Mental Health Practitioner '' @ EN_DASH # ascii '' Private Practice'')
     (ascii ''51+ providers'') (ascii ''Low'') [ascii ''Trauma-informed care''] []
   = (ascii ''Community Access'', 16)
   \<and> determine_recommendation
     (ascii ''Mental Health or Healthcare Provider '' @ EN_DASH # ascii '' Public System'')
     (ascii ''51+ providers'') (ascii ''High'') [] [ascii ''Group therapy or workshops'']
   = (ascii ''Enterprise Care (Public Health)'', 20)
   \<and> determine_recommendation
     (ascii ''Mental Health or Healthcare Provider '' @ EN_DASH # ascii '' Public System'')
     (ascii ''1 (Solo practice)'') (ascii ''High'') [ascii ''Trauma-informed care''] []
   = (ascii ''Practice Plus'', 6)"
  using determine_recommendation_recognised
          [of "ascii ''2'' @ EN_DASH # ascii ''5 providers''" "ascii ''Low''" "[]" "[]"]
        determine_recommendation_recognised
          [of "ascii ''51+ providers''" "ascii ''Low''" "[ascii ''Trauma-informed care'']" "[]"]
        determine_recommendation_recognised
          [of "ascii ''51+ providers''" "ascii ''High''" "[]" "[ascii ''Group therapy or workshops'']"]
        determine_recommendation_recognised
          [of "ascii ''1 (Solo practice)''" "ascii ''High''" "[ascii ''Trauma-informed care'']" "[]"]
  by (simp add: literal)

text \<open>
  C2: for an organisation type outside the four recognised ones, the result is Practice
  Plus with 8 seats when \<open>Trauma-informed care\<close> is among the specializations;
  otherwise Community Access with 20 seats when \<open>Group therapy or workshops\<close> is among
  the services and the team size is one of the two largest; otherwise Community Access
  with 10 seats.
\<close>

theorem determine_recommendation_unrecognised:
  "ot \<notin> set recognised_org_types \<Longrightarrow>
   determine_recommendation ot ts cv sp sv =
     (if ascii ''Trauma-informed care'' \<in> set sp then (ascii ''Practice Plus'', 8)
      else if ascii ''Group therapy or workshops'' \<in> set sv
              \<and> (ts = ascii ''16'' @ EN_DASH # ascii ''50 providers'' \<or> ts = ascii ''51+ providers'')
           then (ascii ''Community Access'', 20)
      else (ascii ''Community Access'', 10))"
  by (simp add: determine_recommendation_def recognised_org_types_def literal)

theorem determine_recommendation_unrecognised_witness:
  "ascii ''Community Clinic'' \<notin> set recognised_org_types
   \<and> determine_recommendation (ascii ''Community Clinic'') (ascii ''51+ providers'') (ascii ''High'')
        [ascii ''Trauma-informed care''] [ascii ''Group therapy or workshops'']
      = (ascii ''Practice Plus'', 8)
   \<and> determine_recommendation (ascii ''Community Clinic'') (ascii ''51+ providers'') (ascii ''High'')
        [] [ascii ''Group therapy or workshops'']
      = (ascii ''Community Access'', 20)
   \<and> determine_recommendation (ascii ''Community Clinic'') (ascii ''6'' @ EN_DASH # ascii ''15 providers'') (ascii ''High'')
        [] [ascii ''Group therapy or workshops'']
      = (ascii ''Community Access'', 10)"
proof -
  have h: "ascii ''Community Clinic'' \<notin> set recognised_org_types"
    by (simp add: recognised_org_types_def literal)
  show ?thesis
    using h
      determine_recommendation_unrecognised [OF h, of "ascii ''51+ providers''" "ascii ''High''"
        "[ascii ''Trauma-informed care'']" "[ascii ''Group therapy or workshops'']"]
      determine_recommendation_unrecognised [OF h, of "ascii ''51+ providers''" "ascii ''High''"
        "[]" "[ascii ''Group therapy or workshops'']"]
      determine_recommendation_unrecognised [OF h, of "ascii ''6'' @ EN_DASH # ascii ''15 providers''" "ascii ''High''"
        "[]" "[ascii ''Group therapy or workshops'']"]
    by (simp add: literal)
qed

lemma if_mem: "((if c then x else y) \<in> S) = ((c \<longrightarrow> x \<in> S) \<and> (\<not> c \<longrightarrow> y \<in> S))"
  by simp

lemma determine_recommendation_cases:
  "determine_recommendation ot ts cv sp sv \<in>
     {(ascii ''Enterprise Access (Insurance & EAS)'', 20),
      (ascii ''Fresh Start'', 4),
      (ascii ''Practice Plus'', 8),
      (ascii ''Community Access'', 16),
      (ascii ''Enterprise Care (Public Health)'', 20),
      (ascii ''Practice Plus'', 6),
      (ascii ''Community Access'', 20),
      (ascii ''Community Access'', 10)}"
  unfolding determine_recommendation_def if_mem
  by (intro conjI impI insertI1 insertI2)

lemma determine_recommendation_returns:
  "determine_recommendation ot ts cv sp sv \<in> set return_statements"
  using determine_recommendation_cases [of ot ts cv sp sv]
  by (auto simp add: return_statements_def)

lemma determine_recommendation_fallback:
  "ot \<notin> set recognised_org_types \<Longrightarrow>
   determine_recommendation ot ts cv [] [] = (ascii ''Community Access'', 10)"
  by (simp add: determine_recommendation_def recognised_org_types_def)

text \<open>
  C8: \<open>determine_recommendation\<close> has no \<open>raise\<close> and applies only \<open>==\<close> and \<open>in\<close> to
  strings and lists of strings, so its model is a function into the pairs with no error
  value. Every input, empty sequences included, gets the value of one of the \<open>return\<close>
  statements; with an unrecognised organisation type and empty \<open>specializations\<close> and
  \<open>services\<close> it is the last one.
\<close>

theorem determine_recommendation_total:
  "(\<exists>tier seats. determine_recommendation ot ts cv sp sv = (tier, seats)
      \<and> (tier, seats) \<in> set return_statements)
   \<and> determine_recommendation ot ts cv [] [] \<in> set return_statements
   \<and> (ot \<notin> set recognised_org_types \<longrightarrow>
        determine_recommendation ot ts cv [] [] = (ascii ''Community Access'', 10))"
proof -
  obtain tier seats where r: "determine_recommendation ot ts cv sp sv = (tier, seats)"
    by (cases "determine_recommendation ot ts cv sp sv")
  with determine_recommendation_returns [of ot ts cv sp sv]
  have "\<exists>tier seats. determine_recommendation ot ts cv sp sv = (tier, seats)
      \<and> (tier, seats) \<in> set return_statements"
    by simp
  with determine_recommendation_returns [of ot ts cv "[]" "[]"]
    determine_recommendation_fallback [of ot ts cv]
  show ?thesis by blast
qed

theorem determine_recommendation_total_witness:
  "[] \<notin> set recognised_org_types
   \<and> determine_recommendation [] [] [] [] [] = (ascii ''Community Access'', 10)
   \<and> determine_recommendation [] [] [] [] [] \<in> set return_statements"
proof -
  have h: "[] \<notin> set recognised_org_types"
    by (simp add: recognised_org_types_def literal)
  from h determine_recommendation_total [of "[]" "[]" "[]" "[]" "[]"] show ?thesis
    by (simp add: return_statements_def)
qed

section \<open>The pricing and feature tables\<close>

lemma pricing_known:
  "pricing (ascii ''Fresh Start'') = Some 49"
  "pricing (ascii ''Practice Plus'') = Some 89"
  "pricing (ascii ''Community Access'') = Some 49"
  "pricing (ascii ''Enterprise Care (Public Health)'') = Some 199"
  "pricing (ascii ''Enterprise Access (Insurance & EAS)'') = Some 199"
  by (simp_all add: pricing_def literal)

lemma pricing_unknown: "tier \<notin> set tier_names \<Longrightarrow> pricing tier = None"
  by (simp add: pricing_def tier_names_def literal)

text \<open>
  C4: \<open>calculate_price\<close> multiplies the seats by the rate of the tier in the table (49,
  89, 49, 199, 199), and by 49 for a tier that is not a key of the table; the three
  end-to-end examples cost 3980, 196 and 712.
\<close>

theorem calculate_price_table:
  "calculate_price (ascii ''Fresh Start'') seats = seats * 49
   \<and> calculate_price (ascii ''Practice Plus'') seats = seats * 89
   \<and> calculate_price (ascii ''Community Access'') seats = seats * 49
   \<and> calculate_price (ascii ''Enterprise Care (Public Health)'') seats = seats * 199
   \<and> calculate_price (ascii ''Enterprise Access (Insurance & EAS)'') seats = seats * 199
   \<and> (tier \<notin> set tier_names \<longrightarrow> calculate_price tier seats = seats * 49)
   \<and> calculate_price (ascii ''Enterprise Access (Insurance & EAS)'') 20 = 3980
   \<and> calculate_price (ascii ''Fresh Start'') 4 = 196
   \<and> calculate_price (ascii ''Practice Plus'') 8 = 712"
  by (simp add: calculate_price_def pricing_known pricing_unknown)

theorem calculate_price_table_witness:
  "ascii ''Premium'' \<notin> set tier_names
   \<and> calculate_price (ascii ''Premium'') 3 = 147
   \<and> calculate_price (ascii ''Practice Plus'') 3 = 267"
  using calculate_price_table [of 3 "ascii ''Premium''"]
  by (simp add: tier_names_def literal)

text \<open>
  C5: \<open>get_features\<close> returns, for each of the five tier names, the list of the table in
  its order, and the empty list for every other string.
\<close>

theorem get_features_table:
  "get_features (ascii ''Fresh Start'') =
     [ascii ''Basic self-guided tools'', ascii ''AI self-assessment'',
      ascii ''1 group session/month'', ascii ''1 report template'']
   \<and> get_features (ascii ''Practice Plus'') =
     [ascii ''Full AI suite'', ascii ''Group modules'', ascii ''2 sessions/month'',
      ascii ''Custom reports'', ascii ''Provider dashboard'']
   \<and> get_features (ascii ''Community Access'') =
     [ascii ''Multilingual AI tools'', ascii ''Scalable group support'',
      ascii ''Onboarding support'', ascii ''Usage dashboard'',
      ascii ''Volume discounts for 500+ users'']
   \<and> get_features (ascii ''Enterprise Care (Public Health)'') =
     [ascii ''Full AI triage'', ascii ''Post-session care'', ascii ''Real-time analytics'',
      ascii ''API access'', ascii ''Client monitoring & support'',
      ascii ''Unlimited video, audio, and text-based monitoring tools'']
   \<and> get_features (ascii ''Enterprise Access (Insurance & EAS)'') =
     [ascii ''API integration'', ascii ''Branded self-assessments'', ascii ''Usage analytics'',
      ascii ''Employer group modules'', ascii ''Outcome dashboards'',
      ascii ''Unlimited monitoring tools'']
   \<and> (tier \<notin> set tier_names \<longrightarrow> get_features tier = [])"
  by (simp add: get_features_def features_def tier_names_def literal)

theorem get_features_table_witness:
  "ascii ''fresh start'' \<notin> set tier_names
   \<and> get_features (ascii ''fresh start'') = []
   \<and> get_features [] = []
   \<and> length (get_features (ascii ''Fresh Start'')) = 4"
  using get_features_table [of "ascii ''fresh start''"] get_features_table [of "[]"]
  by (simp add: tier_names_def literal)

section \<open>What the engine can return\<close>

lemma features_known:
  "features (ascii ''Fresh Start'') =
     Some [ascii ''Basic self-guided tools'', ascii ''AI self-assessment'',
      ascii ''1 group session/month'', ascii ''1 report template'']"
  "features (ascii ''Practice Plus'') =
     Some [ascii ''Full AI suite'', ascii ''Group modules'', ascii ''2 sessions/month'',
      ascii ''Custom reports'', ascii ''Provider dashboard'']"
  "features (ascii ''Community Access'') =
     Some [ascii ''Multilingual AI tools'', ascii ''Scalable group support'',
      ascii ''Onboarding support'', ascii ''Usage dashboard'',
      ascii ''Volume discounts for 500+ users'']"
  "features (ascii ''Enterprise Care (Public Health)'') =
     Some [ascii ''Full AI triage'', ascii ''Post-session care'', ascii ''Real-time analytics'',
      ascii ''API access'', ascii ''Client monitoring & support'',
      ascii ''Unlimited video, audio, and text-based monitoring tools'']"
  "features (ascii ''Enterprise Access (Insurance & EAS)'') =
     Some [ascii ''API integration'', ascii ''Branded self-assessments'', ascii ''Usage analytics'',
      ascii ''Employer group modules'', ascii ''Outcome dashboards'',
      ascii ''Unlimited monitoring tools'']"
  by (simp_all add: features_def literal)

lemma dom_pricing: "dom pricing = set tier_names"
  by (auto simp add: pricing_def tier_names_def literal)

lemma dom_features: "dom features = set tier_names"
  by (auto simp add: features_def tier_names_def literal)

lemma tier_names_priced:
  "tier \<in> set tier_names \<Longrightarrow> \<exists>rate. pricing tier = Some rate \<and> rate \<in> {49, 89, 199}"
  using pricing_known by (auto simp add: tier_names_def)

lemma tier_names_featured:
  "tier \<in> set tier_names \<Longrightarrow> \<exists>fs. features tier = Some fs \<and> fs \<noteq> []"
  using features_known by (auto simp add: tier_names_def)

lemma return_statements_range:
  "(tier, seats) \<in> set return_statements \<Longrightarrow>
   tier \<in> set tier_names \<and> seats \<in> {4, 6, 8, 10, 16, 20}"
  by (auto simp add: return_statements_def tier_names_def)

text \<open>
  C9: the tier that \<open>determine_recommendation\<close> returns is one of the five names that are
  the keys of \<open>pricing\<close> and of \<open>features\<close>, and the seat count is one of 4, 6, 8, 10,
  16 and 20, hence positive; so \<open>calculate_price\<close> finds the rate of the tier in its
  table and \<open>get_features\<close> returns the list of the tier, which is not empty.
\<close>

theorem determine_recommendation_range:
  "\<exists>tier seats rate fs.
     determine_recommendation ot ts cv sp sv = (tier, seats)
     \<and> tier \<in> set tier_names
     \<and> set tier_names = dom pricing
     \<and> set tier_names = dom features
     \<and> seats \<in> {4, 6, 8, 10, 16, 20}
     \<and> 0 < seats
     \<and> pricing tier = Some rate
     \<and> calculate_price tier seats = seats * rate
     \<and> features tier = Some fs
     \<and> get_features tier = fs
     \<and> fs \<noteq> []"
proof -
  obtain tier seats where r: "determine_recommendation ot ts cv sp sv = (tier, seats)"
    by (cases "determine_recommendation ot ts cv sp sv")
  with determine_recommendation_returns [of ot ts cv sp sv]
  have "(tier, seats) \<in> set return_statements" by simp
  from return_statements_range [OF this]
  have tier: "tier \<in> set tier_names" and seats: "seats \<in> {4, 6, 8, 10, 16, 20}" by simp_all
  from seats have pos: "0 < seats" by auto
  from tier_names_priced [OF tier] obtain rate where rate: "pricing tier = Some rate" by blast
  from tier_names_featured [OF tier] obtain fs where fs: "features tier = Some fs" "fs \<noteq> []"
    by blast
  have "calculate_price tier seats = seats * rate" by (simp add: calculate_price_def rate)
  moreover have "get_features tier = fs" by (simp add: get_features_def fs)
  ultimately show ?thesis
    using r tier seats pos rate fs dom_pricing dom_features by blast
qed

section \<open>UTF-8: decoding inverts encoding\<close>

lemma utf8_decode_two:
  assumes "2 \<le> q" "q < 32" "r < 64"
  shows "utf8_decode ((192 + q) # (128 + r) # rest)
         = map_option ((#) (q * 64 + r)) (utf8_decode rest)"
  using assms by (simp add: continuation_def Let_def)

lemma utf8_decode_three:
  assumes "q < 16" "r1 < 64" "r2 < 64" "2048 \<le> q * 4096 + r1 * 64 + r2"
    and "\<not> (55296 \<le> q * 4096 + r1 * 64 + r2 \<and> q * 4096 + r1 * 64 + r2 < 57344)"
  shows "utf8_decode ((224 + q) # (128 + r1) # (128 + r2) # rest)
         = map_option ((#) (q * 4096 + r1 * 64 + r2)) (utf8_decode rest)"
  using assms by (simp add: continuation_def Let_def)

lemma utf8_decode_four:
  assumes "q < 8" "r1 < 64" "r2 < 64" "r3 < 64"
    and "65536 \<le> q * 262144 + r1 * 4096 + r2 * 64 + r3"
    and "q * 262144 + r1 * 4096 + r2 * 64 + r3 < 1114112"
  shows "utf8_decode ((240 + q) # (128 + r1) # (128 + r2) # (128 + r3) # rest)
         = map_option ((#) (q * 262144 + r1 * 4096 + r2 * 64 + r3)) (utf8_decode rest)"
  using assms by (simp add: continuation_def Let_def)

lemma split3: "(c::nat) div 4096 * 4096 + c div 64 mod 64 * 64 + c mod 64 = c"
proof -
  have "c div 64 = (c div 64 div 64) * 64 + c div 64 mod 64" by simp
  moreover have "c div 64 div 64 = c div 4096" by (simp add: div_mult2_eq [symmetric])
  moreover have "c = c div 64 * 64 + c mod 64" by simp
  ultimately show ?thesis by arith
qed

lemma split4: "(c::nat) div 262144 * 262144 + c div 4096 mod 64 * 4096
                   + c div 64 mod 64 * 64 + c mod 64 = c"
proof -
  have "c div 4096 = (c div 4096 div 64) * 64 + c div 4096 mod 64" by simp
  moreover have "c div 4096 div 64 = c div 262144" by (simp add: div_mult2_eq [symmetric])
  moreover have "c div 4096 * 4096 + c div 64 mod 64 * 64 + c mod 64 = c" by (rule split3)
  ultimately show ?thesis by arith
qed

lemma utf8_encode_char_one: "c < 128 \<Longrightarrow> utf8_encode_char c = Inr [c]"
  by (simp add: utf8_encode_char_def)

lemma utf8_encode_char_two:
  "128 \<le> c \<Longrightarrow> c < 2048 \<Longrightarrow> utf8_encode_char c = Inr [192 + c div 64, 128 + c mod 64]"
  by (simp add: utf8_encode_char_def)

lemma utf8_encode_char_three:
  "2048 \<le> c \<Longrightarrow> c < 65536 \<Longrightarrow> \<not> (55296 \<le> c \<and> c < 57344) \<Longrightarrow>
   utf8_encode_char c = Inr [224 + c div 4096, 128 + c div 64 mod 64, 128 + c mod 64]"
  by (simp add: utf8_encode_char_def)

lemma utf8_encode_char_four:
  "65536 \<le> c \<Longrightarrow> c < 1114112 \<Longrightarrow>
   utf8_encode_char c =
     Inr [240 + c div 262144, 128 + c div 4096 mod 64, 128 + c div 64 mod 64, 128 + c mod 64]"
  by (simp add: utf8_encode_char_def)

lemma utf8_encode_char_error:
  "(55296 \<le> c \<and> c < 57344) \<or> 1114112 \<le> c \<Longrightarrow> utf8_encode_char c = Inl UnicodeEncodeError"
  by (auto simp add: utf8_encode_char_def)

lemma utf8_decode_encode_char:
  assumes "utf8_encode_char c = Inr bs"
  shows "utf8_decode (bs @ rest) = map_option ((#) c) (utf8_decode rest)"
proof -
  consider (one) "c < 128"
    | (two) "128 \<le> c" "c < 2048"
    | (three) "2048 \<le> c" "c < 65536" "\<not> (55296 \<le> c \<and> c < 57344)"
    | (four) "65536 \<le> c" "c < 1114112"
    | (bad) "(55296 \<le> c \<and> c < 57344) \<or> 1114112 \<le> c"
    by linarith
  then show ?thesis
  proof cases
    case one
    from assms utf8_encode_char_one [OF one] have "bs = [c]" by simp
    with one show ?thesis by simp
  next
    case two
    from assms utf8_encode_char_two [OF two]
    have bs: "bs = [192 + c div 64, 128 + c mod 64]" by simp
    have c: "c div 64 * 64 + c mod 64 = c" by simp
    have "2 \<le> c div 64" "c div 64 < 32" "c mod 64 < 64" using two by simp_all
    from utf8_decode_two [OF this, of rest] show ?thesis
      unfolding bs c by simp
  next
    case three
    from assms utf8_encode_char_three [OF three]
    have bs: "bs = [224 + c div 4096, 128 + c div 64 mod 64, 128 + c mod 64]" by simp
    note c = split3 [of c]
    have "c div 4096 < 16" "c div 64 mod 64 < 64" "c mod 64 < 64" using three by simp_all
    from utf8_decode_three [OF this, of rest] three show ?thesis
      unfolding bs c by simp
  next
    case four
    from assms utf8_encode_char_four [OF four]
    have bs: "bs = [240 + c div 262144, 128 + c div 4096 mod 64,
            128 + c div 64 mod 64, 128 + c mod 64]" by simp
    note c = split4 [of c]
    have "c div 262144 < 8" "c div 4096 mod 64 < 64" "c div 64 mod 64 < 64" "c mod 64 < 64"
      using four by simp_all
    from utf8_decode_four [OF this, of rest] four show ?thesis
      unfolding bs c by simp
  next
    case bad
    with assms utf8_encode_char_error [OF bad] show ?thesis by simp
  qed
qed

lemma utf8_decode_encode:
  "utf8_encode s = Inr bs \<Longrightarrow> utf8_decode bs = Some s"
proof (induction s arbitrary: bs)
  case Nil
  then show ?case by simp
next
  case (Cons c s)
  from Cons.prems obtain b1 b2 where
    c: "utf8_encode_char c = Inr b1" and s: "utf8_encode s = Inr b2" and bs: "bs = b1 @ b2"
    by (auto split: sum.splits)
  from Cons.IH [OF s] utf8_decode_encode_char [OF c, of b2] show ?case
    by (simp add: bs)
qed

lemma mod_64_byte: "(x::nat) mod 64 < 128"
  by (rule order_less_trans [OF mod_less_divisor]) simp_all

lemma utf8_encode_char_bytes:
  assumes "utf8_encode_char c = Inr bs"
  shows "list_all (\<lambda>b. b < 256) bs"
proof -
  consider (one) "c < 128"
    | (two) "128 \<le> c" "c < 2048"
    | (three) "2048 \<le> c" "c < 65536" "\<not> (55296 \<le> c \<and> c < 57344)"
    | (four) "65536 \<le> c" "c < 1114112"
    | (bad) "(55296 \<le> c \<and> c < 57344) \<or> 1114112 \<le> c"
    by linarith
  then show ?thesis
  proof cases
    case one
    from assms utf8_encode_char_one [OF one] have "bs = [c]" by simp
    with one show ?thesis by simp
  next
    case two
    from assms utf8_encode_char_two [OF two]
    have bs: "bs = [192 + c div 64, 128 + c mod 64]" by simp
    have "c div 64 < 32" using two by simp
    then show ?thesis unfolding bs by (simp add: mod_64_byte)
  next
    case three
    from assms utf8_encode_char_three [OF three]
    have bs: "bs = [224 + c div 4096, 128 + c div 64 mod 64, 128 + c mod 64]" by simp
    have "c div 4096 < 16" using three by simp
    then show ?thesis unfolding bs by (simp add: mod_64_byte)
  next
    case four
    from assms utf8_encode_char_four [OF four]
    have bs: "bs = [240 + c div 262144, 128 + c div 4096 mod 64,
            128 + c div 64 mod 64, 128 + c mod 64]" by simp
    have "c div 262144 < 8" using four by simp
    then show ?thesis unfolding bs by (simp add: mod_64_byte)
  next
    case bad
    with assms utf8_encode_char_error [OF bad] show ?thesis by simp
  qed
qed

lemma utf8_encode_bytes:
  "utf8_encode s = Inr bs \<Longrightarrow> list_all (\<lambda>b. b < 256) bs"
proof (induction s arbitrary: bs)
  case Nil
  then show ?case by simp
next
  case (Cons c s)
  from Cons.prems obtain b1 b2 where
    c: "utf8_encode_char c = Inr b1" and s: "utf8_encode s = Inr b2" and bs: "bs = b1 @ b2"
    by (auto split: sum.splits)
  from Cons.IH [OF s] utf8_encode_char_bytes [OF c] show ?case
    by (simp add: bs)
qed

lemma utf8_encode_char_total:
  assumes "c < 1114112" "\<not> (55296 \<le> c \<and> c < 57344)"
  shows "\<exists>bs. utf8_encode_char c = Inr bs"
proof -
  consider (one) "c < 128"
    | (two) "128 \<le> c" "c < 2048"
    | (three) "2048 \<le> c" "c < 65536" "\<not> (55296 \<le> c \<and> c < 57344)"
    | (four) "65536 \<le> c" "c < 1114112"
    using assms by linarith
  then show ?thesis
  proof cases
    case one
    from utf8_encode_char_one [OF one] show ?thesis by simp
  next
    case two
    from utf8_encode_char_two [OF two] show ?thesis by simp
  next
    case three
    from utf8_encode_char_three [OF three] show ?thesis by simp
  next
    case four
    from utf8_encode_char_four [OF four] show ?thesis by simp
  qed
qed

lemma encodable_Cons:
  "encodable (c # s) \<longleftrightarrow> (c < 1114112 \<and> \<not> (55296 \<le> c \<and> c < 57344)) \<and> encodable s"
  by (simp add: encodable_def)

lemma utf8_encode_total:
  "encodable s \<Longrightarrow> \<exists>bs. utf8_encode s = Inr bs"
proof (induction s)
  case Nil
  then show ?case by simp
next
  case (Cons c s)
  from Cons.prems have c: "c < 1114112" "\<not> (55296 \<le> c \<and> c < 57344)" and s: "encodable s"
    by (simp_all add: encodable_Cons)
  from utf8_encode_char_total [OF c] obtain b1 where "utf8_encode_char c = Inr b1" ..
  moreover from Cons.IH [OF s] obtain b2 where "utf8_encode s = Inr b2" ..
  ultimately show ?case by simp
qed

lemma utf8_encode_char_Inl:
  assumes "utf8_encode_char c = Inl e"
  shows "e = UnicodeEncodeError \<and> \<not> (c < 1114112 \<and> \<not> (55296 \<le> c \<and> c < 57344))"
proof (cases "c < 1114112 \<and> \<not> (55296 \<le> c \<and> c < 57344)")
  case True
  then obtain bs where "utf8_encode_char c = Inr bs"
    using utf8_encode_char_total [of c] by blast
  with assms show ?thesis by simp
next
  case False
  then have "(55296 \<le> c \<and> c < 57344) \<or> 1114112 \<le> c" by linarith
  from utf8_encode_char_error [OF this] assms False show ?thesis by simp
qed

lemma utf8_encode_Inl:
  "utf8_encode s = Inl e \<Longrightarrow> e = UnicodeEncodeError \<and> \<not> encodable s"
proof (induction s)
  case Nil
  then show ?case by simp
next
  case (Cons c s)
  show ?case
  proof (cases "utf8_encode_char c")
    case (Inl e')
    with Cons.prems have "e' = e" by simp
    with utf8_encode_char_Inl [OF Inl] show ?thesis by (simp add: encodable_Cons)
  next
    case (Inr b1)
    with Cons.prems have "utf8_encode s = Inl e" by (simp split: sum.splits)
    from Cons.IH [OF this] show ?thesis by (simp add: encodable_Cons)
  qed
qed

lemma utf8_encode_encodable: "utf8_encode s = Inr bs \<Longrightarrow> encodable s"
proof (induction s arbitrary: bs)
  case Nil
  then show ?case by (simp add: encodable_def)
next
  case (Cons c s)
  from Cons.prems obtain b1 b2 where
    c: "utf8_encode_char c = Inr b1" and s: "utf8_encode s = Inr b2"
    by (auto split: sum.splits)
  have "c < 1114112 \<and> \<not> (55296 \<le> c \<and> c < 57344)"
  proof (rule ccontr)
    assume "\<not> (c < 1114112 \<and> \<not> (55296 \<le> c \<and> c < 57344))"
    then have "(55296 \<le> c \<and> c < 57344) \<or> 1114112 \<le> c" by linarith
    from utf8_encode_char_error [OF this] c show False by simp
  qed
  with Cons.IH [OF s] show ?case by (simp add: encodable_Cons)
qed

section \<open>Percent-decoding inverts \<open>quote\<close>\<close>

lemma hex_value_hex_digit: "d < 16 \<Longrightarrow> hex_value (hex_digit d) = Some d"
  by (simp add: hex_value_def hex_digit_def)

lemma hex_digit_range:
  "d < 16 \<Longrightarrow> (48 \<le> hex_digit d \<and> hex_digit d \<le> 57) \<or> (65 \<le> hex_digit d \<and> hex_digit d \<le> 70)"
  by (simp add: hex_digit_def)

lemma unquote_to_bytes_escape:
  assumes "hex_value h = Some a" "hex_value l = Some b"
  shows "unquote_to_bytes (37 # h # l # rest) = map_option ((#) (16 * a + b)) (unquote_to_bytes rest)"
  using assms by simp

lemma unquote_to_bytes_plain:
  assumes "c \<noteq> 37" "c < 128"
  shows "unquote_to_bytes (c # rest) = map_option ((#) c) (unquote_to_bytes rest)"
  using assms by simp

lemma always_safe_plain: "always_safe b \<or> b = 47 \<Longrightarrow> b \<noteq> 37 \<and> b < 128"
  by (auto simp add: always_safe_def)

lemma unquote_to_bytes_quoter:
  assumes "b < 256"
  shows "unquote_to_bytes (quoter b @ rest) = map_option ((#) b) (unquote_to_bytes rest)"
proof (cases "always_safe b \<or> b = 47")
  case True
  from always_safe_plain [OF True] have "b \<noteq> 37" "b < 128" by simp_all
  from unquote_to_bytes_plain [OF this, of rest] True show ?thesis
    by (simp add: quoter_def)
next
  case False
  have d: "b div 16 < 16" "b mod 16 < 16" using assms by simp_all
  have b: "16 * (b div 16) + b mod 16 = b" by simp
  from unquote_to_bytes_escape [OF hex_value_hex_digit [OF d(1)] hex_value_hex_digit [OF d(2)], of rest]
    False show ?thesis
    unfolding b by (simp add: quoter_def)
qed

lemma unquote_to_bytes_concat:
  "list_all (\<lambda>b. b < 256) bs \<Longrightarrow> unquote_to_bytes (concat (map quoter bs)) = Some bs"
proof (induction bs)
  case Nil
  then show ?case by simp
next
  case (Cons b bs)
  then have b: "b < 256" and bs: "list_all (\<lambda>b. b < 256) bs" by simp_all
  from unquote_to_bytes_quoter [OF b, of "concat (map quoter bs)"] Cons.IH [OF bs]
  show ?case by simp
qed

lemma percent_decode_quote:
  assumes "quote s = Inr q"
  shows "percent_decode q = Some s"
proof -
  from assms obtain bs where bs: "utf8_encode s = Inr bs" and q: "q = concat (map quoter bs)"
    by (auto simp add: quote_def split: sum.splits)
  from unquote_to_bytes_concat [OF utf8_encode_bytes [OF bs]] utf8_decode_encode [OF bs]
  show ?thesis by (simp add: percent_decode_def q)
qed

lemma quote_total: "encodable s \<Longrightarrow> \<exists>q. quote s = Inr q"
  using utf8_encode_total [of s] by (auto simp add: quote_def)

lemma quote_Inl: "quote s = Inl e \<Longrightarrow> e = UnicodeEncodeError \<and> \<not> encodable s"
  using utf8_encode_Inl [of s e] by (auto simp add: quote_def split: sum.splits)

lemma quote_encodable: "quote s = Inr q \<Longrightarrow> encodable s"
  using utf8_encode_encodable [of s] by (auto simp add: quote_def split: sum.splits)

text \<open>No character of a quoted string is \<open>#\<close>, \<open>&\<close>, \<open>=\<close> or \<open>?\<close>.\<close>

lemma quoter_unreserved:
  assumes "b < 256"
  shows "list_all (\<lambda>c. c \<noteq> 35 \<and> c \<noteq> 38 \<and> c \<noteq> 61 \<and> c \<noteq> 63) (quoter b)"
proof (cases "always_safe b \<or> b = 47")
  case True
  then show ?thesis by (auto simp add: quoter_def always_safe_def)
next
  case False
  have d: "b div 16 < 16" "b mod 16 < 16" using assms by simp_all
  from hex_digit_range [OF d(1)] hex_digit_range [OF d(2)] False show ?thesis
    by (auto simp add: quoter_def)
qed

lemma concat_quoter_unreserved:
  "list_all (\<lambda>b. b < 256) bs \<Longrightarrow>
   list_all (\<lambda>c. c \<noteq> 35 \<and> c \<noteq> 38 \<and> c \<noteq> 61 \<and> c \<noteq> 63) (concat (map quoter bs))"
proof (induction bs)
  case Nil
  then show ?case by simp
next
  case (Cons b bs)
  then have b: "b < 256" and bs: "list_all (\<lambda>b. b < 256) bs" by simp_all
  from quoter_unreserved [OF b] Cons.IH [OF bs] show ?case by simp
qed

lemma quote_unreserved:
  assumes "quote s = Inr q"
  shows "list_all (\<lambda>c. c \<noteq> 35 \<and> c \<noteq> 38 \<and> c \<noteq> 61 \<and> c \<noteq> 63) q"
proof -
  from assms obtain bs where bs: "utf8_encode s = Inr bs" and q: "q = concat (map quoter bs)"
    by (auto simp add: quote_def split: sum.splits)
  from concat_quoter_unreserved [OF utf8_encode_bytes [OF bs]] show ?thesis by (simp add: q)
qed

section \<open>Reading an integer inverts \<open>str\<close>\<close>

lemma read_digits_append:
  "read_digits acc (xs @ ys) =
     (case read_digits acc xs of None \<Rightarrow> None | Some acc' \<Rightarrow> read_digits acc' ys)"
  by (induction xs arbitrary: acc) simp_all

lemma read_digits_str_nat: "read_digits 0 (str_nat n) = Some n"
proof (induction n rule: str_nat.induct)
  case (1 n)
  show ?case
  proof (cases "n < 10")
    case True
    then show ?thesis by (simp add: str_nat.simps [of n])
  next
    case False
    have d: "n mod 10 \<le> 9"
      using mod_less_divisor [of 10 n] by linarith
    have n: "10 * (n div 10) + n mod 10 = n" by simp
    from "1.IH" [OF False] False d show ?thesis
      by (simp add: str_nat.simps [of n] read_digits_append n)
  qed
qed

lemma str_nat_digits: "list_all (\<lambda>c. 48 \<le> c \<and> c \<le> 57) (str_nat n)"
proof (induction n rule: str_nat.induct)
  case (1 n)
  show ?case
  proof (cases "n < 10")
    case True
    then show ?thesis by (simp add: str_nat.simps [of n])
  next
    case False
    have d: "n mod 10 \<le> 9"
      using mod_less_divisor [of 10 n] by linarith
    from "1.IH" [OF False] False d show ?thesis
      by (simp add: str_nat.simps [of n])
  qed
qed

lemma str_nat_not_Nil: "str_nat n \<noteq> []"
  by (simp add: str_nat.simps [of n])

lemma str_nat_Cons: "\<exists>c cs. str_nat n = c # cs \<and> c \<noteq> 45"
proof -
  obtain c cs where eq: "str_nat n = c # cs"
    using str_nat_not_Nil [of n] by (cases "str_nat n") auto
  with str_nat_digits [of n] have "c \<noteq> 45" by auto
  with eq show ?thesis by blast
qed

lemma read_int_decimal: "read_int (decimal i) = Some i"
proof (cases "i < 0")
  case True
  with str_nat_not_Nil [of "nat (- i)"] read_digits_str_nat [of "nat (- i)"] show ?thesis
    by (simp add: read_int_def decimal_def)
next
  case False
  obtain c cs where eq: "str_nat (nat i) = c # cs" and c: "c \<noteq> 45"
    using str_nat_Cons [of "nat i"] by blast
  from read_digits_str_nat [of "nat i"] have "read_digits 0 (c # cs) = Some (nat i)"
    by (simp add: eq)
  with False c show ?thesis
    by (simp add: read_int_def decimal_def eq)
qed

lemma encodable_decimal: "encodable (decimal i)"
  using str_nat_digits [of "nat i"] str_nat_digits [of "nat (- i)"]
  by (auto simp add: encodable_def decimal_def list_all_iff)

lemma encodable_ascii: "encodable (ascii cs)"
proof -
  have "(of_char c :: nat) < 1114112 \<and> \<not> (55296 \<le> (of_char c :: nat) \<and> (of_char c :: nat) < 57344)"
    for c
    using nat_of_char_less_256 [of c] by linarith
  then show ?thesis
    by (simp add: encodable_def ascii_def list_all_iff)
qed

text \<open>When \<open>str\<close> returns and when it raises.\<close>

lemma str_int_Inr: "str_int i = Inr s \<Longrightarrow> s = decimal i \<and> within_str_limit i"
  by (simp add: str_int_def split: if_splits)

lemma str_int_Inl: "str_int i = Inl e \<Longrightarrow> e = ValueError \<and> \<not> within_str_limit i"
  by (simp add: str_int_def split: if_splits)

lemma str_int_total: "within_str_limit i \<Longrightarrow> str_int i = Inr (decimal i)"
  by (simp add: str_int_def)

lemma length_str_nat: "0 < k \<Longrightarrow> n < 10 ^ k \<Longrightarrow> length (str_nat n) \<le> k"
proof (induction n arbitrary: k rule: str_nat.induct)
  case (1 n)
  show ?case
  proof (cases "n < 10")
    case True
    with "1.prems" show ?thesis by (simp add: str_nat.simps [of n])
  next
    case False
    from "1.prems" obtain j where k: "k = Suc j" by (cases k) auto
    have j: "0 < j"
    proof (rule ccontr)
      assume "\<not> 0 < j"
      with k "1.prems" False show False by simp
    qed
    from "1.prems" k have "n < 10 * 10 ^ j" by simp
    then have "n div 10 < 10 ^ j" by (simp add: less_mult_imp_div_less mult.commute)
    from "1.IH" [OF False j this] False k show ?thesis
      by (simp add: str_nat.simps [of n])
  qed
qed

lemma within_str_limit_small: "0 \<le> i \<Longrightarrow> i < 10000 \<Longrightarrow> within_str_limit i"
proof -
  assume "0 \<le> i" "i < 10000"
  then have "nat \<bar>i\<bar> < 10 ^ 4" by simp
  from length_str_nat [OF _ this] show ?thesis
    by (simp add: within_str_limit_def int_max_str_digits_def)
qed

text \<open>The first integer that \<open>str\<close> refuses has 4301 digits.\<close>

lemma length_str_nat_lower: "10 ^ k \<le> n \<Longrightarrow> k < length (str_nat n)"
proof (induction n arbitrary: k rule: str_nat.induct)
  case (1 n)
  show ?case
  proof (cases "n < 10")
    case True
    have "k = 0"
    proof (rule ccontr)
      assume "k \<noteq> 0"
      then obtain j where "k = Suc j" by (cases k) auto
      moreover have "(1::nat) \<le> 10 ^ j" by simp
      ultimately have "(10::nat) \<le> 10 ^ k" by simp
      with "1.prems" True show False by simp
    qed
    then show ?thesis by (simp add: str_nat.simps [of n])
  next
    case False
    show ?thesis
    proof (cases k)
      case 0
      then show ?thesis by (simp add: str_nat_not_Nil)
    next
      case (Suc j)
      with "1.prems" have "10 * 10 ^ j \<le> n" by simp
      then have "10 ^ j \<le> n div 10" by simp
      from "1.IH" [OF False this] False Suc show ?thesis
        by (simp add: str_nat.simps [of n])
    qed
  qed
qed

lemma length_str_nat_le_iff: "0 < k \<Longrightarrow> length (str_nat n) \<le> k \<longleftrightarrow> n < 10 ^ k"
proof
  assume "0 < k" "length (str_nat n) \<le> k"
  show "n < 10 ^ k"
  proof (rule ccontr)
    assume "\<not> n < 10 ^ k"
    then have "10 ^ k \<le> n" by simp
    from length_str_nat_lower [OF this] \<open>length (str_nat n) \<le> k\<close> show False by simp
  qed
next
  assume "0 < k" "n < 10 ^ k"
  then show "length (str_nat n) \<le> k" by (rule length_str_nat)
qed

lemma within_str_limit_iff: "within_str_limit i \<longleftrightarrow> \<bar>i\<bar> < 10 ^ int_max_str_digits"
proof -
  have pos: "0 < int_max_str_digits" by (simp add: int_max_str_digits_def)
  have "nat \<bar>i\<bar> < 10 ^ int_max_str_digits \<longleftrightarrow> \<bar>i\<bar> < 10 ^ int_max_str_digits"
    by (simp add: nat_less_iff)
  with length_str_nat_le_iff [OF pos, of "nat \<bar>i\<bar>"] show ?thesis
    by (simp only: within_str_limit_def)
qed

lemma str_int_refuses: "10 ^ int_max_str_digits \<le> \<bar>i\<bar> \<Longrightarrow> str_int i = Inl ValueError"
  by (simp add: str_int_def within_str_limit_iff)

section \<open>The parameters of a generated link\<close>

lemma split_on_plain: "list_all (\<lambda>c. c \<noteq> sep) xs \<Longrightarrow> split_on sep xs = [xs]"
  by (induction xs) simp_all

lemma split_on_append:
  "list_all (\<lambda>c. c \<noteq> sep) xs \<Longrightarrow> split_on sep (xs @ sep # ys) = xs # split_on sep ys"
  by (induction xs) simp_all

lemma url_query_append:
  assumes xs: "list_all (\<lambda>c. c \<noteq> 35 \<and> c \<noteq> 63) xs" and q: "list_all (\<lambda>c. c \<noteq> 35) q"
  shows "url_query (xs @ 63 # q) = q"
proof -
  from xs q have "\<forall>c\<in>set (xs @ 63 # q). c \<noteq> 35"
    by (auto simp add: list_all_iff)
  then have tw: "takeWhile (\<lambda>c. c \<noteq> 35) (xs @ 63 # q) = xs @ 63 # q"
    by (simp only: takeWhile_eq_all_conv)
  from xs
  have dw: "dropWhile (\<lambda>c. c \<noteq> 63) (xs @ 63 # q) = dropWhile (\<lambda>c. c \<noteq> 63) (63 # q)"
    by (intro dropWhile_append2) (simp add: list_all_iff)
  show ?thesis unfolding url_query_def tw dw by simp
qed

lemma split_param_append:
  assumes "list_all (\<lambda>c. c \<noteq> 61) k"
  shows "split_param (k @ 61 # v) = (k, v)"
proof -
  from assms have all: "\<And>x. x \<in> set k \<Longrightarrow> x \<noteq> 61" by (simp add: list_all_iff)
  then have "dropWhile (\<lambda>c. c \<noteq> 61) (k @ 61 # v) = dropWhile (\<lambda>c. c \<noteq> 61) (61 # v)"
    by (intro dropWhile_append2)
  moreover from all have "takeWhile (\<lambda>c. c \<noteq> 61) (k @ 61 # v) = k"
    by (simp add: takeWhile_append2)
  ultimately show ?thesis by (simp add: split_param_def)
qed

lemma base_url_no_query: "list_all (\<lambda>c. c \<noteq> 35 \<and> c \<noteq> 63) (base_url @ ascii ''/'')"
  by (simp add: base_url_def literal)

lemma key_chars:
  "list_all (\<lambda>c. c \<noteq> 35 \<and> c \<noteq> 38 \<and> c \<noteq> 61) (ascii ''tier'')"
  "list_all (\<lambda>c. c \<noteq> 35 \<and> c \<noteq> 38 \<and> c \<noteq> 61) (ascii ''seats'')"
  "list_all (\<lambda>c. c \<noteq> 35 \<and> c \<noteq> 38 \<and> c \<noteq> 61) (ascii ''utm_source'')"
  by (simp_all add: literal)

lemma ascii_singletons: "ascii ''/?'' = [47, 63]" "ascii ''&'' = [38]" "ascii ''='' = [61]"
  "ascii ''/'' = [47]"
  by (simp_all add: literal)

lemma key_distinct:
  "ascii ''tier'' \<noteq> ascii ''seats''" "ascii ''seats'' \<noteq> ascii ''tier''"
  "ascii ''tier'' \<noteq> ascii ''utm_source''" "ascii ''seats'' \<noteq> ascii ''utm_source''"
  by (simp_all add: literal)

lemma link_parameters:
  assumes q1: "list_all (\<lambda>c. c \<noteq> 35 \<and> c \<noteq> 38 \<and> c \<noteq> 61 \<and> c \<noteq> 63) q1"
    and q2: "list_all (\<lambda>c. c \<noteq> 35 \<and> c \<noteq> 38 \<and> c \<noteq> 61 \<and> c \<noteq> 63) q2"
    and q3: "list_all (\<lambda>c. c \<noteq> 35 \<and> c \<noteq> 38 \<and> c \<noteq> 61 \<and> c \<noteq> 63) q3"
  shows "map split_param (split_on 38 (url_query
           (base_url @ ascii ''/?''
            @ join (ascii ''&'')
                [ascii ''tier'' @ ascii ''='' @ q1,
                 ascii ''seats'' @ ascii ''='' @ q2,
                 ascii ''utm_source'' @ ascii ''='' @ q3])))
         = [(ascii ''tier'', q1), (ascii ''seats'', q2), (ascii ''utm_source'', q3)]"
proof -
  let ?p1 = "ascii ''tier'' @ 61 # q1"
  let ?p2 = "ascii ''seats'' @ 61 # q2"
  let ?p3 = "ascii ''utm_source'' @ 61 # q3"
  have url: "base_url @ ascii ''/?''
            @ join (ascii ''&'')
                [ascii ''tier'' @ ascii ''='' @ q1,
                 ascii ''seats'' @ ascii ''='' @ q2,
                 ascii ''utm_source'' @ ascii ''='' @ q3]
        = (base_url @ ascii ''/'') @ 63 # (?p1 @ 38 # ?p2 @ 38 # ?p3)"
    by (simp add: ascii_singletons)
  have no_fragment: "list_all (\<lambda>c. c \<noteq> 35) (?p1 @ 38 # ?p2 @ 38 # ?p3)"
    using key_chars q1 q2 q3 by (auto simp add: list_all_iff)
  have query: "url_query ((base_url @ ascii ''/'') @ 63 # (?p1 @ 38 # ?p2 @ 38 # ?p3))
        = ?p1 @ 38 # ?p2 @ 38 # ?p3"
    by (rule url_query_append [OF base_url_no_query no_fragment])
  have p1: "list_all (\<lambda>c. c \<noteq> 38) ?p1" and p2: "list_all (\<lambda>c. c \<noteq> 38) ?p2"
    and p3: "list_all (\<lambda>c. c \<noteq> 38) ?p3"
    using key_chars q1 q2 q3 by (auto simp add: list_all_iff)
  have split: "split_on 38 (?p1 @ 38 # ?p2 @ 38 # ?p3) = [?p1, ?p2, ?p3]"
    by (simp only: split_on_append [OF p1] split_on_append [OF p2] split_on_plain [OF p3])
  have k: "list_all (\<lambda>c. c \<noteq> 61) (ascii ''tier'')" "list_all (\<lambda>c. c \<noteq> 61) (ascii ''seats'')"
    "list_all (\<lambda>c. c \<noteq> 61) (ascii ''utm_source'')"
    using key_chars by (auto simp add: list_all_iff)
  show ?thesis
    by (simp only: url query split list.map split_param_append [OF k(1)]
          split_param_append [OF k(2)] split_param_append [OF k(3)])
qed

text \<open>What a link made of three quoted values carries.\<close>

lemma link_of_quoted:
  assumes q1: "quote tier = Inr q1" and q2: "quote (decimal seats) = Inr q2"
    and q3: "quote source = Inr q3"
  shows "link_tier (base_url @ ascii ''/?''
                   @ join (ascii ''&'')
                       [ascii ''tier'' @ ascii ''='' @ q1,
                        ascii ''seats'' @ ascii ''='' @ q2,
                        ascii ''utm_source'' @ ascii ''='' @ q3]) = Some tier
       \<and> link_seats (base_url @ ascii ''/?''
                   @ join (ascii ''&'')
                       [ascii ''tier'' @ ascii ''='' @ q1,
                        ascii ''seats'' @ ascii ''='' @ q2,
                        ascii ''utm_source'' @ ascii ''='' @ q3]) = Some seats"
proof -
  note params = link_parameters [OF quote_unreserved [OF q1] quote_unreserved [OF q2]
      quote_unreserved [OF q3]]
  have "link_tier (base_url @ ascii ''/?''
                   @ join (ascii ''&'')
                       [ascii ''tier'' @ ascii ''='' @ q1,
                        ascii ''seats'' @ ascii ''='' @ q2,
                        ascii ''utm_source'' @ ascii ''='' @ q3]) = Some tier"
    unfolding link_tier_def query_param_def params
    by (simp add: percent_decode_quote [OF q1])
  moreover have "link_seats (base_url @ ascii ''/?''
                   @ join (ascii ''&'')
                       [ascii ''tier'' @ ascii ''='' @ q1,
                        ascii ''seats'' @ ascii ''='' @ q2,
                        ascii ''utm_source'' @ ascii ''='' @ q3]) = Some seats"
    unfolding link_seats_def query_param_def params
    by (simp add: key_distinct percent_decode_quote [OF q2] read_int_decimal)
  ultimately show ?thesis by simp
qed

text \<open>
  When \<open>generate_streamlit_url\<close> returns, and what: the tier string has a UTF-8
  encoding and the seat count is within the digit limit of \<open>str\<close>.
\<close>

lemma generate_streamlit_url_Inr:
  assumes "encodable tier" "within_str_limit seats"
  shows "\<exists>q1 q2 q3. quote tier = Inr q1 \<and> quote (decimal seats) = Inr q2
          \<and> quote (ascii ''chatbot'') = Inr q3
          \<and> generate_streamlit_url tier seats =
              Inr (base_url @ ascii ''/?''
                   @ join (ascii ''&'')
                       [ascii ''tier'' @ ascii ''='' @ q1,
                        ascii ''seats'' @ ascii ''='' @ q2,
                        ascii ''utm_source'' @ ascii ''='' @ q3])"
proof -
  from quote_total [OF assms(1)] obtain q1 where q1: "quote tier = Inr q1" ..
  from quote_total [OF encodable_decimal] obtain q2 where q2: "quote (decimal seats) = Inr q2" ..
  from quote_total [OF encodable_ascii] obtain q3 where q3: "quote (ascii ''chatbot'') = Inr q3" ..
  show ?thesis
    by (simp add: generate_streamlit_url_def q1 q2 q3 str_int_total [OF assms(2)])
qed

lemma generate_streamlit_url_InrD:
  assumes "generate_streamlit_url tier seats = Inr url"
  shows "\<exists>q1 q2 q3. quote tier = Inr q1 \<and> quote (decimal seats) = Inr q2
          \<and> quote (ascii ''chatbot'') = Inr q3
          \<and> url = base_url @ ascii ''/?''
                   @ join (ascii ''&'')
                       [ascii ''tier'' @ ascii ''='' @ q1,
                        ascii ''seats'' @ ascii ''='' @ q2,
                        ascii ''utm_source'' @ ascii ''='' @ q3]"
proof -
  from assms obtain q1 where q1: "quote tier = Inr q1"
    by (cases "quote tier") (simp_all add: generate_streamlit_url_def)
  from assms q1 obtain s where s: "str_int seats = Inr s"
    by (cases "str_int seats") (simp_all add: generate_streamlit_url_def)
  from str_int_Inr [OF s] have s': "str_int seats = Inr (decimal seats)"
    using s by simp
  from assms q1 s' obtain q2 where q2: "quote (decimal seats) = Inr q2"
    by (cases "quote (decimal seats)") (simp_all add: generate_streamlit_url_def)
  from assms q1 s' q2 obtain q3 where q3: "quote (ascii ''chatbot'') = Inr q3"
    by (cases "quote (ascii ''chatbot'')") (simp_all add: generate_streamlit_url_def)
  from assms q1 s' q2 q3 show ?thesis
    by (auto simp add: generate_streamlit_url_def)
qed

text \<open>
  When it raises: on a tier string that has no UTF-8 encoding, such as one with a lone
  surrogate, and on a seat count beyond the digit limit.
\<close>

lemma generate_streamlit_url_Inl:
  assumes "generate_streamlit_url tier seats = Inl e"
  shows "(e = UnicodeEncodeError \<and> \<not> encodable tier)
         \<or> (e = ValueError \<and> encodable tier \<and> \<not> within_str_limit seats)"
proof (cases "encodable tier \<and> within_str_limit seats")
  case True
  with generate_streamlit_url_Inr [of tier seats] assms show ?thesis by auto
next
  case False
  show ?thesis
  proof (cases "quote tier")
    case (Inl e')
    with assms have "e' = e" by (simp add: generate_streamlit_url_def)
    with quote_Inl [OF Inl] show ?thesis by simp
  next
    case (Inr q1)
    from quote_encodable [OF Inr] have enc: "encodable tier" .
    with False have lim: "\<not> within_str_limit seats" by simp
    then have "str_int seats = Inl ValueError" by (simp add: str_int_def)
    with assms Inr enc lim show ?thesis by (simp add: generate_streamlit_url_def)
  qed
qed

lemma generate_streamlit_url_surrogate:
  "generate_streamlit_url [0xD83D] 20 = Inl UnicodeEncodeError"
  by (simp add: generate_streamlit_url_def quote_def utf8_encode_char_def)

lemma generate_streamlit_url_refuses:
  assumes "encodable tier" "10 ^ int_max_str_digits \<le> \<bar>seats\<bar>"
  shows "generate_streamlit_url tier seats = Inl ValueError"
proof -
  from quote_total [OF assms(1)] obtain q1 where "quote tier = Inr q1" ..
  with str_int_refuses [OF assms(2)] show ?thesis
    by (simp add: generate_streamlit_url_def)
qed

text \<open>The link of the first end-to-end example, computed.\<close>

lemma generate_streamlit_url_example:
  "generate_streamlit_url (ascii ''Enterprise Access (Insurance & EAS)'') 20 =
     Inr (ascii ''https://cogni-recommendation-chuiv5x8slzxktq3mzbb5p.streamlit.app/?tier=Enterprise%20Access%20%28Insurance%20%26%20EAS%29&seats=20&utm_source=chatbot'')"
  by code_simp

text \<open>What the engine returns is within the domain of the link and of \<open>str\<close>.\<close>

lemma tier_names_encodable: "tier \<in> set tier_names \<Longrightarrow> encodable tier"
  using encodable_ascii by (auto simp add: tier_names_def)

lemma return_statements_printable:
  "(tier, seats) \<in> set return_statements \<Longrightarrow>
   within_str_limit seats \<and> within_str_limit (calculate_price tier seats)"
  by (auto simp add: return_statements_def calculate_price_def pricing_known
        within_str_limit_small)

text \<open>
  C6: for every tier string and every seat count, the link that
  \<open>generate_streamlit_url\<close> produces carries them: percent-decoding the values of its
  parameters \<open>tier\<close> and \<open>seats\<close> gives back the tier string and the seat count,
  whatever characters the tier has (spaces, ampersands and parentheses included). A link
  is produced for every tier string that has a UTF-8 encoding and every seat count
  within the digit limit of \<open>str\<close>, and so for every pair that
  \<open>determine_recommendation\<close> returns, which are the only ones the program passes.
\<close>

theorem generate_streamlit_url_round_trip:
  "(generate_streamlit_url tier seats = Inr url \<longrightarrow>
      link_tier url = Some tier \<and> link_seats url = Some seats)
   \<and> (encodable tier \<and> within_str_limit seats \<longrightarrow>
        (\<exists>u. generate_streamlit_url tier seats = Inr u
              \<and> link_tier u = Some tier \<and> link_seats u = Some seats))
   \<and> (determine_recommendation ot ts cv sp sv = (tier, seats) \<longrightarrow>
        (\<exists>u. generate_streamlit_url tier seats = Inr u
              \<and> link_tier u = Some tier \<and> link_seats u = Some seats))"
proof -
  have round_trip: "link_tier u = Some tier \<and> link_seats u = Some seats"
    if u: "generate_streamlit_url tier seats = Inr u" for u
  proof -
    from generate_streamlit_url_InrD [OF u] obtain q1 q2 q3 where
      q1: "quote tier = Inr q1" and q2: "quote (decimal seats) = Inr q2"
      and q3: "quote (ascii ''chatbot'') = Inr q3"
      and url: "u = base_url @ ascii ''/?''
                   @ join (ascii ''&'')
                       [ascii ''tier'' @ ascii ''='' @ q1,
                        ascii ''seats'' @ ascii ''='' @ q2,
                        ascii ''utm_source'' @ ascii ''='' @ q3]"
      by blast
    from link_of_quoted [OF q1 q2 q3] show ?thesis
      unfolding url .
  qed
  have returns: "\<exists>u. generate_streamlit_url tier seats = Inr u
              \<and> link_tier u = Some tier \<and> link_seats u = Some seats"
    if "encodable tier" "within_str_limit seats"
  proof -
    from generate_streamlit_url_Inr [OF that] obtain u where
      u: "generate_streamlit_url tier seats = Inr u" by blast
    with round_trip [OF u] show ?thesis by blast
  qed
  have reachable: "\<exists>u. generate_streamlit_url tier seats = Inr u
              \<and> link_tier u = Some tier \<and> link_seats u = Some seats"
    if r: "determine_recommendation ot ts cv sp sv = (tier, seats)"
  proof -
    from determine_recommendation_returns [of ot ts cv sp sv] r
    have m: "(tier, seats) \<in> set return_statements" by simp
    from return_statements_range [OF m] have "tier \<in> set tier_names" by simp
    from returns [OF tier_names_encodable [OF this]] return_statements_printable [OF m]
    show ?thesis by simp
  qed
  from round_trip returns reachable show ?thesis by blast
qed

theorem generate_streamlit_url_round_trip_witness:
  "generate_streamlit_url (ascii ''Enterprise Access (Insurance & EAS)'') 20 =
       Inr (ascii ''https://cogni-recommendation-chuiv5x8slzxktq3mzbb5p.streamlit.app/?tier=Enterprise%20Access%20%28Insurance%20%26%20EAS%29&seats=20&utm_source=chatbot'')
   \<and> link_tier (ascii ''https://cogni-recommendation-chuiv5x8slzxktq3mzbb5p.streamlit.app/?tier=Enterprise%20Access%20%28Insurance%20%26%20EAS%29&seats=20&utm_source=chatbot'')
       = Some (ascii ''Enterprise Access (Insurance & EAS)'')
   \<and> link_seats (ascii ''https://cogni-recommendation-chuiv5x8slzxktq3mzbb5p.streamlit.app/?tier=Enterprise%20Access%20%28Insurance%20%26%20EAS%29&seats=20&utm_source=chatbot'')
       = Some 20
   \<and> encodable (ascii ''Enterprise Access (Insurance & EAS)'')
   \<and> within_str_limit 20
   \<and> determine_recommendation (ascii ''Insurance Provider / EAS'') (ascii ''51+ providers'')
         (ascii ''High'') [] []
       = (ascii ''Enterprise Access (Insurance & EAS)'', 20)"
proof -
  have e: "encodable (ascii ''Enterprise Access (Insurance & EAS)'')"
    by (rule encodable_ascii)
  have l: "within_str_limit 20"
    by (rule within_str_limit_small) simp_all
  have r: "determine_recommendation (ascii ''Insurance Provider / EAS'') (ascii ''51+ providers'')
         (ascii ''High'') [] []
       = (ascii ''Enterprise Access (Insurance & EAS)'', 20)"
    by (simp add: determine_recommendation_def)
  from generate_streamlit_url_round_trip
         [of "ascii ''Enterprise Access (Insurance & EAS)''" 20
             "ascii ''https://cogni-recommendation-chuiv5x8slzxktq3mzbb5p.streamlit.app/?tier=Enterprise%20Access%20%28Insurance%20%26%20EAS%29&seats=20&utm_source=chatbot''"]
       generate_streamlit_url_example e l r
  show ?thesis by simp
qed

section \<open>The endpoint\<close>

lemma recommendation_body_invalid:
  "org_type data = [] \<or> team_size data = [] \<or> client_volume data = [] \<Longrightarrow>
   recommendation_body data = Inl (HTTPException 422 (ascii ''Missing required fields''))"
  by (auto simp add: recommendation_body_def)

lemma get_recommendation_invalid:
  "org_type data = [] \<or> team_size data = [] \<or> client_volume data = [] \<Longrightarrow>
   get_recommendation str_exn data =
     Inl (HTTPException 500 (str_exn (HTTPException 422 (ascii ''Missing required fields''))))"
  by (simp add: get_recommendation_def recommendation_body_invalid)

text \<open>
  C3: the claim is that a request with an empty required field is answered with status
  422 and that nothing is computed for it. Nothing is computed, but the status is 500:
  the \<open>HTTPException\<close> with status 422 is raised inside the \<open>try\<close> statement, and
  \<open>except Exception\<close> catches it and raises the one with status 500. Here
  \<open>team_size\<close> is the empty string.
\<close>

theorem get_recommendation_empty_team_size:
  "get_recommendation str_exn
     \<lparr>org_type = ascii ''Insurance Provider / EAS'', team_size = [], team_roles = [],
      client_volume = ascii ''High'', services = [], specializations = []\<rparr>
   = Inl (HTTPException 500 (str_exn (HTTPException 422 (ascii ''Missing required fields''))))"
  by (simp add: get_recommendation_def recommendation_body_def)

lemma whitespace_unrecognised:
  "ot \<noteq> [] \<Longrightarrow> list_all whitespace ot \<Longrightarrow> ot \<notin> set recognised_org_types"
  by (cases ot) (auto simp add: recognised_org_types_def whitespace_def literal)

text \<open>
  C10: the validation tests only that the three required strings are not empty. For every
  request in which they are not, whitespace-only strings included, the endpoint returns
  the full response: the package and seats of \<open>determine_recommendation\<close>, the price,
  the features, the link and the sales message. An \<open>org_type\<close> that holds only
  whitespace is none of the recognised organisation types, so the package and the seats
  are those of the fallback rules.
\<close>

theorem get_recommendation_nonempty:
  assumes "org_type data \<noteq> []" "team_size data \<noteq> []" "client_volume data \<noteq> []"
    and r: "determine_recommendation (org_type data) (team_size data) (client_volume data)
              (specializations data) (services data) = (package, seats)"
  shows "(\<exists>url message.
            generate_streamlit_url package seats = Inr url
            \<and> generate_sales_message package seats (calculate_price package seats) data
                = Inr message
            \<and> get_recommendation str_exn data =
                Inr \<lparr>recommended_package = package,
                     recommended_seats = seats,
                     estimated_pricing = ascii ''$'' @ decimal (calculate_price package seats),
                     key_features = get_features package,
                     next_steps = url,
                     sales_message = message\<rparr>)
         \<and> (list_all whitespace (org_type data) \<longrightarrow>
               org_type data \<notin> set recognised_org_types
               \<and> (package, seats) =
                   (if ascii ''Trauma-informed care'' \<in> set (specializations data)
                    then (ascii ''Practice Plus'', 8)
                    else if ascii ''Group therapy or workshops'' \<in> set (services data)
                            \<and> (team_size data = ascii ''16'' @ EN_DASH # ascii ''50 providers''
                                \<or> team_size data = ascii ''51+ providers'')
                         then (ascii ''Community Access'', 20)
                    else (ascii ''Community Access'', 10)))"
proof -
  from determine_recommendation_returns
         [of "org_type data" "team_size data" "client_volume data" "specializations data"
             "services data"] r
  have "(package, seats) \<in> set return_statements" by simp
  note m = this
  from return_statements_range [OF m] have "package \<in> set tier_names" by simp
  from return_statements_printable [OF m]
  have seats: "str_int seats = Inr (decimal seats)"
    and price: "str_int (calculate_price package seats)
                = Inr (decimal (calculate_price package seats))"
    by (simp_all add: str_int_total)
  from generate_streamlit_url_Inr [OF tier_names_encodable [OF \<open>package \<in> set tier_names\<close>]]
    return_statements_printable [OF m]
  obtain url where url: "generate_streamlit_url package seats = Inr url" by blast
  then obtain message where
    message: "generate_sales_message package seats (calculate_price package seats) data
              = Inr message"
    by (simp add: generate_sales_message_def seats price)
  from assms(1-3) r url message price
  have "get_recommendation str_exn data =
                Inr \<lparr>recommended_package = package,
                     recommended_seats = seats,
                     estimated_pricing = ascii ''$'' @ decimal (calculate_price package seats),
                     key_features = get_features package,
                     next_steps = url,
                     sales_message = message\<rparr>"
    by (simp add: get_recommendation_def recommendation_body_def)
  with url message have first: "\<exists>url message.
            generate_streamlit_url package seats = Inr url
            \<and> generate_sales_message package seats (calculate_price package seats) data
                = Inr message
            \<and> get_recommendation str_exn data =
                Inr \<lparr>recommended_package = package,
                     recommended_seats = seats,
                     estimated_pricing = ascii ''$'' @ decimal (calculate_price package seats),
                     key_features = get_features package,
                     next_steps = url,
                     sales_message = message\<rparr>"
    by blast
  have second: "org_type data \<notin> set recognised_org_types
               \<and> (package, seats) =
                   (if ascii ''Trauma-informed care'' \<in> set (specializations data)
                    then (ascii ''Practice Plus'', 8)
                    else if ascii ''Group therapy or workshops'' \<in> set (services data)
                            \<and> (team_size data = ascii ''16'' @ EN_DASH # ascii ''50 providers''
                                \<or> team_size data = ascii ''51+ providers'')
                         then (ascii ''Community Access'', 20)
                    else (ascii ''Community Access'', 10))"
    if ws: "list_all whitespace (org_type data)"
  proof -
    from whitespace_unrecognised [OF assms(1) ws]
    have u: "org_type data \<notin> set recognised_org_types" .
    then have "determine_recommendation (org_type data) (team_size data) (client_volume data)
              (specializations data) (services data) =
                   (if ascii ''Trauma-informed care'' \<in> set (specializations data)
                    then (ascii ''Practice Plus'', 8)
                    else if ascii ''Group therapy or workshops'' \<in> set (services data)
                            \<and> (team_size data = ascii ''16'' @ EN_DASH # ascii ''50 providers''
                                \<or> team_size data = ascii ''51+ providers'')
                         then (ascii ''Community Access'', 20)
                    else (ascii ''Community Access'', 10))"
      by (simp add: determine_recommendation_def recognised_org_types_def)
    with r u show ?thesis by simp
  qed
  from first second show ?thesis by blast
qed

theorem get_recommendation_nonempty_witness:
  "ascii '' '' \<noteq> [] \<and> ascii ''51+ providers'' \<noteq> [] \<and> ascii ''High'' \<noteq> []
   \<and> list_all whitespace (ascii '' '')
   \<and> determine_recommendation (ascii '' '') (ascii ''51+ providers'') (ascii ''High'') [] []
       = (ascii ''Community Access'', 10)
   \<and> (\<exists>url message.
         get_recommendation (\<lambda>e. [])
           \<lparr>org_type = ascii '' '', team_size = ascii ''51+ providers'', team_roles = [],
            client_volume = ascii ''High'', services = [], specializations = []\<rparr>
         = Inr \<lparr>recommended_package = ascii ''Community Access'',
                recommended_seats = 10,
                estimated_pricing = ascii ''$'' @ decimal 490,
                key_features =
                  [ascii ''Multilingual AI tools'', ascii ''Scalable group support'',
                   ascii ''Onboarding support'', ascii ''Usage dashboard'',
                   ascii ''Volume discounts for 500+ users''],
                next_steps = url,
                sales_message = message\<rparr>)"
proof -
  let ?req = "\<lparr>org_type = ascii '' '', team_size = ascii ''51+ providers'', team_roles = [],
            client_volume = ascii ''High'', services = [], specializations = []\<rparr>"
  have h: "org_type ?req \<noteq> []" "team_size ?req \<noteq> []" "client_volume ?req \<noteq> []"
    by (simp_all add: literal)
  have ws: "list_all whitespace (ascii '' '')"
    by (simp add: whitespace_def literal)
  have r: "determine_recommendation (org_type ?req) (team_size ?req) (client_volume ?req)
             (specializations ?req) (services ?req) = (ascii ''Community Access'', 10)"
    by (simp add: determine_recommendation_def literal)
  have price: "calculate_price (ascii ''Community Access'') 10 = 490"
    by (simp add: calculate_price_def pricing_known)
  have fs: "get_features (ascii ''Community Access'') =
                  [ascii ''Multilingual AI tools'', ascii ''Scalable group support'',
                   ascii ''Onboarding support'', ascii ''Usage dashboard'',
                   ascii ''Volume discounts for 500+ users'']"
    by (simp add: get_features_def features_known)
  from get_recommendation_nonempty [OF h r, of "\<lambda>e. []"] have
    "\<exists>url message.
         get_recommendation (\<lambda>e. []) ?req
         = Inr \<lparr>recommended_package = ascii ''Community Access'',
                recommended_seats = 10,
                estimated_pricing = ascii ''$'' @ decimal 490,
                key_features =
                  [ascii ''Multilingual AI tools'', ascii ''Scalable group support'',
                   ascii ''Onboarding support'', ascii ''Usage dashboard'',
                   ascii ''Volume discounts for 500+ users''],
                next_steps = url,
                sales_message = message\<rparr>"
    unfolding price fs by blast
  with h ws r show ?thesis by simp
qed

end
